theory Spec2Isabelle
  imports Main
begin

section \<open>JavaScript values\<close>

text \<open>
  The data that crosses the host/guest boundary (message envelopes, API responses,
  rejection reasons) is dynamically typed. It is embedded as a datatype of JSON-like
  values together with \<open>undefined\<close>. Numbers are integers: the program only compares a
  number with \<open>0\<close> and tests it for truthiness, and a fraction passes both tests as
  a non-zero integer does. Objects are association lists; a property that is not
  listed reads as \<open>undefined\<close>.
\<close>

datatype jsval =
    JUndefined
  | JNull
  | JBool bool
  | JNum int
  | JStr string
  | JArr "jsval list"
  | JObj "(string \<times> jsval) list"

text \<open>A computation that may throw: \<open>Inl e\<close> is the thrown value \<open>e\<close>.\<close>

type_synonym 'a js = "jsval + 'a"

definition bind_js :: "'a js \<Rightarrow> ('a \<Rightarrow> 'b js) \<Rightarrow> 'b js" where
  "bind_js m f = (case m of Inl e \<Rightarrow> Inl e | Inr x \<Rightarrow> f x)"

text \<open>JavaScript truthiness (\<open>ToBoolean\<close>).\<close>

fun truthy :: "jsval \<Rightarrow> bool" where
  "truthy JUndefined = False"
| "truthy JNull = False"
| "truthy (JBool b) = b"
| "truthy (JNum n) = (n \<noteq> 0)"
| "truthy (JStr s) = (s \<noteq> [])"
| "truthy (JArr xs) = True"
| "truthy (JObj kvs) = True"

text \<open>
  The value of an engine-raised \<open>TypeError\<close>, with its message (whose wording is
  the engine's).
\<close>

definition type_error :: "string \<Rightarrow> jsval" where
  "type_error m = JObj [(''name'', JStr ''TypeError''), (''message'', JStr m)]"

text \<open>
  Property read \<open>v.k\<close>. Reading a property of \<open>undefined\<close> or \<open>null\<close> throws a
  \<open>TypeError\<close>. A boolean, a number and a string have none of the properties this
  program reads; of an array only \<open>length\<close> is modelled, the program reads no
  element.
\<close>

fun get_prop :: "jsval \<Rightarrow> string \<Rightarrow> jsval js" where
  "get_prop JUndefined k =
     Inl (type_error (''Cannot read properties of undefined (reading '' @ k @ '')''))"
| "get_prop JNull k =
     Inl (type_error (''Cannot read properties of null (reading '' @ k @ '')''))"
| "get_prop (JObj kvs) k = Inr (case map_of kvs k of None \<Rightarrow> JUndefined | Some v \<Rightarrow> v)"
| "get_prop (JArr xs) k =
     Inr (if k = ''length'' then JNum (int (length xs)) else JUndefined)"
| "get_prop v k = Inr JUndefined"

text \<open>Optional chaining \<open>v?.k\<close>: \<open>undefined\<close> when \<open>v\<close> is nullish.\<close>

definition get_prop_opt :: "jsval \<Rightarrow> string \<Rightarrow> jsval js" where
  "get_prop_opt v k = (if v = JUndefined \<or> v = JNull then Inr JUndefined else get_prop v k)"

text \<open>\<open>a || b\<close> on values.\<close>

definition js_or :: "jsval \<Rightarrow> jsval \<Rightarrow> jsval" where
  "js_or a b = (if truthy a then a else b)"

text \<open>
  \<open>ToString\<close>, as \<open>new Error(m)\<close> applies it to its argument. Numbers are rendered
  in decimal, which is what JavaScript prints for integers in the safe range. An
  array is the texts of its elements joined by commas, with nothing for \<open>null\<close>
  and \<open>undefined\<close>.
\<close>

fun dec_nat :: "nat \<Rightarrow> string" where
  "dec_nat n =
     (if n < 10 then [''0123456789'' ! n]
      else dec_nat (n div 10) @ [''0123456789'' ! (n mod 10)])"

definition dec_int :: "int \<Rightarrow> string" where
  "dec_int i = (if i < 0 then CHR ''-'' # dec_nat (nat (- i)) else dec_nat (nat i))"

fun join_commas :: "string list \<Rightarrow> string" where
  "join_commas [] = []"
| "join_commas [s] = s"
| "join_commas (s # t # ss) = s @ '','' @ join_commas (t # ss)"

fun js_ToString :: "jsval \<Rightarrow> string" where
  "js_ToString JUndefined = ''undefined''"
| "js_ToString JNull = ''null''"
| "js_ToString (JBool b) = (if b then ''true'' else ''false'')"
| "js_ToString (JNum n) = dec_int n"
| "js_ToString (JStr s) = s"
| "js_ToString (JArr xs) =
     join_commas (map (\<lambda>x. if x = JUndefined \<or> x = JNull then [] else js_ToString x) xs)"
| "js_ToString (JObj kvs) = ''[object Object]''"

text \<open>\<open>new Error(m)\<close>: the message is \<open>ToString(m)\<close>, and empty when \<open>m\<close> is \<open>undefined\<close>.\<close>

definition new_Error :: "jsval \<Rightarrow> jsval" where
  "new_Error m =
     JObj [(''name'', JStr ''Error''),
           (''message'', JStr (if m = JUndefined then [] else js_ToString m))]"

text \<open>
  Statements: a statement runs on a state and ends normally (\<open>None\<close>) or by throwing a
  value (\<open>Some e\<close>), in both cases with the state it has reached.
\<close>

type_synonym 's stmt = "'s \<Rightarrow> jsval option \<times> 's"

definition js_assign :: "('s \<Rightarrow> 's) \<Rightarrow> 's stmt" where
  "js_assign f s = (None, f s)"

definition js_throw :: "jsval \<Rightarrow> 's stmt" where
  "js_throw e s = (Some e, s)"

definition js_seq :: "'s stmt \<Rightarrow> 's stmt \<Rightarrow> 's stmt" where
  "js_seq p q s = (case p s of (None, s1) \<Rightarrow> q s1 | (Some e, s1) \<Rightarrow> (Some e, s1))"

text \<open>Evaluate an expression that may throw, then continue with its value.\<close>

definition js_eval :: "'a js \<Rightarrow> ('a \<Rightarrow> 's stmt) \<Rightarrow> 's stmt" where
  "js_eval m f s = (case m of Inl e \<Rightarrow> (Some e, s) | Inr v \<Rightarrow> f v s)"

definition js_try_catch :: "'s stmt \<Rightarrow> (jsval \<Rightarrow> 's stmt) \<Rightarrow> 's stmt" where
  "js_try_catch p h s = (case p s of (None, s1) \<Rightarrow> (None, s1) | (Some e, s1) \<Rightarrow> h e s1)"

text \<open>\<open>try { p } finally { f }\<close> for a \<open>finally\<close> block that only assigns.\<close>

definition js_try_finally :: "'s stmt \<Rightarrow> ('s \<Rightarrow> 's) \<Rightarrow> 's stmt" where
  "js_try_finally p f s = (case p s of (r, s1) \<Rightarrow> (r, f s1))"



section \<open>The application shell (App.vue)\<close>

text \<open>
  \<open>setup()\<close> of the shell holds two refs: \<open>currentComponent\<close>, a \<open>shallowRef\<close>
  initialised with the imported \<open>Page\<close> component, and \<open>api\<close>, initialised with
  \<open>null\<close>. A ref can hold any value; \<open>None\<close> stands for a content that is neither of
  the two imported components. The messages that \<open>window.parent.postMessage\<close> has
  accepted are recorded in \<open>posted\<close>, oldest first; \<open>postMessage\<close> returns before
  the host sees the message.
\<close>

datatype component = Page | Config

record app_state =
  currentComponent :: "component option"
  api :: jsval
  posted :: "jsval list"

definition app_init :: app_state where
  "app_init = \<lparr>currentComponent = Some Page, api = JNull, posted = []\<rparr>"

text \<open>
  \<open>window.parent\<close>: \<open>None\<close> when it is falsy, \<open>Some b\<close> when it is an object, with
  \<open>b\<close> telling whether its \<open>postMessage\<close> is truthy. The guard of the source is
  \<open>window.parent && window.parent.postMessage\<close>.
\<close>

type_synonym parent_window = "bool option"

fun can_post :: "parent_window \<Rightarrow> bool" where
  "can_post None = False"
| "can_post (Some b) = b"

text \<open>
  The test \<open>event.data && event.data.type === t\<close> used twice by \<open>handleMessage\<close>,
  whose \<open>console.log\<close> only logs.
\<close>

definition data_type_is :: "jsval \<Rightarrow> string \<Rightarrow> bool js" where
  "data_type_is d t =
     (if truthy d then bind_js (get_prop d ''type'') (\<lambda>ty. Inr (ty = JStr t))
      else Inr False)"

definition handleMessage :: "jsval \<Rightarrow> app_state \<Rightarrow> app_state js" where
  "handleMessage d st =
     bind_js (data_type_is d ''api'') (\<lambda>is_api.
     bind_js (if is_api
              then bind_js (get_prop d ''data'') (\<lambda>v. Inr (st\<lparr>api := v\<rparr>))
              else Inr st) (\<lambda>st1.
     bind_js (data_type_is d ''showConfig'') (\<lambda>is_show.
       Inr (if is_show then st1\<lparr>currentComponent := Some Config\<rparr> else st1))))"

definition switchComponent :: "app_state \<Rightarrow> app_state" where
  "switchComponent st =
     st\<lparr>currentComponent :=
          (if currentComponent st = Some Page then Some Config else Some Page)\<rparr>"

definition closeModal :: "parent_window \<Rightarrow> app_state \<Rightarrow> app_state" where
  "closeModal w st =
     (if can_post w then st\<lparr>posted := posted st @ [JObj [(''type'', JStr ''close'')]]\<rparr>
      else st)"

text \<open>
  What the child component hands to its \<open>save\<close> event. \<open>postMessage\<close> copies its
  message with the structured clone algorithm: every value of \<open>jsval\<close> can be
  copied; a function, a reactive proxy, or an object that holds one cannot, and for
  such a message \<open>postMessage\<close> throws a \<open>DataCloneError\<close> (whose wording is the
  engine's) and sends nothing.
\<close>

datatype config_value = Cloneable jsval | Uncloneable

definition data_clone_error :: jsval where
  "data_clone_error =
     JObj [(''name'', JStr ''DataCloneError''),
           (''message'',
            JStr ''Failed to execute postMessage on Window: value could not be cloned.'')]"

text \<open>The call \<open>window.parent.postMessage({ type: 'save', data: config }, '*')\<close>.\<close>

definition post_save :: "config_value \<Rightarrow> app_state stmt" where
  "post_save config =
     (case config of
        Cloneable v \<Rightarrow>
          js_assign (\<lambda>st. st\<lparr>posted := posted st @
                                 [JObj [(''type'', JStr ''save''), (''data'', v)]]\<rparr>)
      | Uncloneable \<Rightarrow> js_throw data_clone_error)"

text \<open>
  \<open>saveConfig\<close>: the guarded call of \<open>postMessage\<close>, then the assignment of
  \<open>Page\<close>. Nothing catches what \<open>postMessage\<close> throws.
\<close>

definition saveConfig :: "parent_window \<Rightarrow> config_value \<Rightarrow> app_state stmt" where
  "saveConfig w config =
     js_seq (if can_post w then post_save config else js_assign (\<lambda>st. st))
            (js_assign (\<lambda>st. st\<lparr>currentComponent := Some Page\<rparr>))"

text \<open>
  The events the mounted shell reacts to: a \<open>message\<close> event of the window (with its
  \<open>event.data\<close>) and the three events emitted by the displayed child component. The
  \<open>save\<close> events of a run carry a configuration that can be cloned; a \<open>save\<close> of
  one that cannot be cloned throws in \<open>saveConfig\<close> before anything is changed.
\<close>

datatype app_event =
    Message jsval
  | Switch
  | Close
  | Save jsval

fun app_step :: "parent_window \<Rightarrow> app_event \<Rightarrow> app_state \<Rightarrow> app_state js" where
  "app_step w (Message d) st = handleMessage d st"
| "app_step w Switch st = Inr (switchComponent st)"
| "app_step w Close st = Inr (closeModal w st)"
| "app_step w (Save config) st =
     (case saveConfig w (Cloneable config) st of
        (None, st') \<Rightarrow> Inr st'
      | (Some e, st') \<Rightarrow> Inl e)"

text \<open>Events are handled one after the other; a handler that throws stops the run.\<close>

fun app_run :: "parent_window \<Rightarrow> app_event list \<Rightarrow> app_state \<Rightarrow> app_state js" where
  "app_run w [] st = Inr st"
| "app_run w (e # es) st = bind_js (app_step w e st) (app_run w es)"

text \<open>
  The handle after a run, read off the events: the data of the most recent \<open>api\<close>
  envelope, or the handle the run started with.
\<close>

definition is_api_envelope :: "jsval \<Rightarrow> bool" where
  "is_api_envelope d = (truthy d \<and> get_prop d ''type'' = Inr (JStr ''api''))"

definition envelope_data :: "jsval \<Rightarrow> jsval" where
  "envelope_data d = (case get_prop d ''data'' of Inl e \<Rightarrow> JUndefined | Inr v \<Rightarrow> v)"

fun latest_handle :: "jsval \<Rightarrow> app_event list \<Rightarrow> jsval" where
  "latest_handle h [] = h"
| "latest_handle h (Message d # es) =
     latest_handle (if is_api_envelope d then envelope_data d else h) es"
| "latest_handle h (e # es) = latest_handle h es"


section \<open>The status widget (Dashboard.vue)\<close>

text \<open>
  The reactive state of the component: the refs \<open>loading\<close>, \<open>error\<close>,
  \<open>initialDataLoaded\<close> and \<open>lastRefreshedTimestamp\<close>, the reactive object \<open>status\<close>
  and the module variable \<open>refreshTimer\<close> (the handle returned by \<open>setInterval\<close>, or
  \<open>null\<close>). The three status fields hold whatever the response carried.
\<close>

record status_fields =
  enabled :: jsval
  has_client :: jsval
  running :: jsval

record dashboard =
  loading :: bool
  error :: jsval
  initialDataLoaded :: bool
  lastRefreshedTimestamp :: jsval
  status :: status_fields
  refreshTimer :: "nat option"

definition dashboard_init :: dashboard where
  "dashboard_init =
     \<lparr>loading = False, error = JNull, initialDataLoaded = False,
      lastRefreshedTimestamp = JNull,
      status = \<lparr>enabled = JBool False, has_client = JBool False, running = JBool False\<rparr>,
      refreshTimer = None\<rparr>"

definition getPluginId :: string where
  "getPluginId = ''P115StrmHelper''"

definition status_path :: string where
  "status_path = ''plugin/'' @ getPluginId @ ''/get_status''"

text \<open>
  The two fallback texts of \<open>fetchData\<close>, as UTF-8 bytes: "failed to get the status"
  (thrown on a response that is not a success) and "failed to get the data" (shown for
  an error without a message).
\<close>

definition msg_status_failed :: string where
  "msg_status_failed = [CHR 0xE8, CHR 0x8E, CHR 0xB7, CHR 0xE5, CHR 0x8F, CHR 0x96, CHR 0xE7, CHR 0x8A, CHR 0xB6, CHR 0xE6, CHR 0x80, CHR 0x81, CHR 0xE5, CHR 0xA4, CHR 0xB1, CHR 0xE8, CHR 0xB4, CHR 0xA5]"

definition msg_data_failed :: string where
  "msg_data_failed = [CHR 0xE8, CHR 0x8E, CHR 0xB7, CHR 0xE5, CHR 0x8F, CHR 0x96, CHR 0xE6, CHR 0x95, CHR 0xB0, CHR 0xE6, CHR 0x8D, CHR 0xAE, CHR 0xE5, CHR 0xA4, CHR 0xB1, CHR 0xE8, CHR 0xB4, CHR 0xA5]"

text \<open>
  How the awaited call \<open>props.api.get(path)\<close> ends: the promise is fulfilled with a
  value, or it is rejected with a reason (any value). A synchronous throw of the
  call expression reaches the same \<open>catch\<close> block and is a rejection here.
\<close>

datatype settlement = Resolved jsval | Rejected jsval

text \<open>
  \<open>props.api\<close>: a client whose \<open>get\<close> can be called, or a value that has no callable
  \<open>get\<close> (reading \<open>get\<close> of \<open>null\<close> or \<open>undefined\<close> throws, and so does calling
  something that is not a function).
\<close>

datatype api_prop = ApiClient "string \<Rightarrow> settlement" | ApiValue jsval

fun api_get :: "api_prop \<Rightarrow> string \<Rightarrow> settlement" where
  "api_get (ApiClient g) path = g path"
| "api_get (ApiValue v) path =
     (case get_prop v ''get'' of
        Inl e \<Rightarrow> Rejected e
      | Inr f \<Rightarrow> Rejected (type_error ''props.api.get is not a function''))"

text \<open>The condition \<open>result && result.code === 0 && result.data\<close>, as a boolean.\<close>

definition is_success :: "jsval \<Rightarrow> bool js" where
  "is_success result =
     (if truthy result
      then bind_js (get_prop result ''code'') (\<lambda>c.
             if c = JNum 0
             then bind_js (get_prop result ''data'') (\<lambda>d. Inr (truthy d))
             else Inr False)
      else Inr False)"

text \<open>The expression \<open>result.data.k\<close>.\<close>

definition data_field :: "jsval \<Rightarrow> string \<Rightarrow> jsval js" where
  "data_field result k = bind_js (get_prop result ''data'') (\<lambda>d. get_prop d k)"

text \<open>The body of the \<open>try\<close> block after the \<open>await\<close>, for the awaited value \<open>result\<close>.\<close>

definition fetch_try :: "jsval \<Rightarrow> int \<Rightarrow> dashboard stmt" where
  "fetch_try result now =
     js_eval (is_success result) (\<lambda>ok.
       if ok then
         js_seq (js_eval (data_field result ''enabled'')
                   (\<lambda>v. js_assign (\<lambda>s. s\<lparr>status := (status s)\<lparr>enabled := v\<rparr>\<rparr>)))
        (js_seq (js_eval (data_field result ''has_client'')
                   (\<lambda>v. js_assign (\<lambda>s. s\<lparr>status := (status s)\<lparr>has_client := v\<rparr>\<rparr>)))
        (js_seq (js_eval (data_field result ''running'')
                   (\<lambda>v. js_assign (\<lambda>s. s\<lparr>status := (status s)\<lparr>running := v\<rparr>\<rparr>)))
        (js_seq (js_assign (\<lambda>s. s\<lparr>initialDataLoaded := True\<rparr>))
                (js_assign (\<lambda>s. s\<lparr>lastRefreshedTimestamp := JNum now\<rparr>)))))
       else
         js_eval (get_prop_opt result ''msg'') (\<lambda>m.
           js_throw (new_Error (js_or m (JStr msg_status_failed)))))"

text \<open>The \<open>catch\<close> block; \<open>console.error\<close> only logs.\<close>

definition fetch_catch :: "jsval \<Rightarrow> dashboard stmt" where
  "fetch_catch err =
     js_eval (get_prop err ''message'') (\<lambda>m.
       js_assign (\<lambda>s. s\<lparr>error := js_or m (JStr msg_data_failed)\<rparr>))"

text \<open>
  \<open>fetchData\<close> is an async function with one \<open>await\<close>. Its first part runs when it is
  called, up to the request; the second part runs when the request has settled.
  Between the two, other callbacks of the component may run.
\<close>

definition fetchData_begin :: "dashboard \<Rightarrow> dashboard" where
  "fetchData_begin s = s\<lparr>loading := True, error := JNull\<rparr>"

definition fetchData_settle :: "settlement \<Rightarrow> int \<Rightarrow> dashboard stmt" where
  "fetchData_settle oc now =
     js_try_finally
       (js_try_catch
          (case oc of Resolved result \<Rightarrow> fetch_try result now | Rejected e \<Rightarrow> js_throw e)
          fetch_catch)
       (\<lambda>s. s\<lparr>loading := False\<rparr>)"

text \<open>A whole refresh with nothing in between: \<open>now\<close> is what \<open>Date.now()\<close> returns.\<close>

definition fetchData :: "api_prop \<Rightarrow> int \<Rightarrow> dashboard stmt" where
  "fetchData a now s = fetchData_settle (api_get a status_path) now (fetchData_begin s)"

text \<open>
  \<open>onMounted\<close>, without the call of the diagnostics (which touches no state of the
  component): the refresh is started, and a timer is set when the interval is
  positive; \<open>t\<close> is the handle \<open>setInterval\<close> returns.
\<close>

definition onMounted :: "int \<Rightarrow> nat \<Rightarrow> dashboard \<Rightarrow> dashboard" where
  "onMounted refreshInterval t s =
     (let s1 = fetchData_begin s
      in if refreshInterval > 0 then s1\<lparr>refreshTimer := Some t\<rparr> else s1)"

definition onUnmounted :: "dashboard \<Rightarrow> dashboard" where
  "onUnmounted s =
     (case refreshTimer s of
        None \<Rightarrow> s
      | Some t \<Rightarrow> if t \<noteq> 0 then s\<lparr>refreshTimer := None\<rparr> else s)"

text \<open>
  What happens to a mounted or unmounted component, in the order it happens: a
  refresh is started, a pending request settles, the component is unmounted.
\<close>

datatype dash_event =
    Start
  | Settle settlement int
  | Unmount

fun dash_step :: "dash_event \<Rightarrow> dashboard \<Rightarrow> dashboard" where
  "dash_step Start s = fetchData_begin s"
| "dash_step (Settle oc now) s = snd (fetchData_settle oc now s)"
| "dash_step Unmount s = onUnmounted s"

fun dash_run :: "dash_event list \<Rightarrow> dashboard \<Rightarrow> dashboard" where
  "dash_run [] s = s"
| "dash_run (e # es) s = dash_run es (dash_step e s)"

text \<open>A settlement that \<open>fetchData\<close> takes as a success.\<close>

fun settles_ok :: "dash_event \<Rightarrow> bool" where
  "settles_ok (Settle (Resolved result) now) = (is_success result = Inr True)"
| "settles_ok e = False"

text \<open>The value of \<open>v.k\<close> for a \<open>v\<close> that is not nullish.\<close>

definition prop_of :: "jsval \<Rightarrow> string \<Rightarrow> jsval" where
  "prop_of v k = (case get_prop v k of Inl e \<Rightarrow> JUndefined | Inr x \<Rightarrow> x)"


section \<open>Deferred diagnostics (init-sentry.js, sentry.js)\<close>

text \<open>
  What the two modules do to the outside world is recorded in order: entering
  \<open>initSentry\<close>, calling \<open>Sentry.init\<close> (with the options it is given), calling
  \<open>Sentry.setUser\<close>, and writing to \<open>console.error\<close>.
\<close>

datatype effect =
    InitSentryCalled
  | SentryInit jsval
  | SentrySetUser
  | ConsoleError string

text \<open>
  What the outside world does during one call of \<open>ensureSentryInitialized\<close>: the
  value or the exception of \<open>getCurrentInstance()\<close>, the global \<open>window\<close>
  (\<open>undefined\<close> when there is none), the value or the exception of \<open>createApp\<close>, of
  \<open>process.env.NODE_ENV\<close> and of \<open>Sentry.replayIntegration\<close>, and what
  \<open>Sentry.init\<close> and \<open>Sentry.setUser\<close> throw, if they throw.
\<close>

record sentry_env =
  getCurrentInstance :: "jsval js"
  window :: jsval
  createApp :: "jsval js"
  node_env :: "jsval js"
  replayIntegration :: "jsval js"
  Sentry_init :: "jsval option"
  Sentry_setUser :: "jsval option"

text \<open>The module variables of init-sentry.js, and the record of effects.\<close>

record sentry_state =
  sentryInitialized :: bool
  tempApp :: jsval
  effects :: "effect list"

definition sentry_start :: sentry_state where
  "sentry_start = \<lparr>sentryInitialized = False, tempApp = JNull, effects = []\<rparr>"

definition emit :: "effect \<Rightarrow> sentry_state stmt" where
  "emit e = js_assign (\<lambda>s. s\<lparr>effects := effects s @ [e]\<rparr>)"

text \<open>A call of a function of the client: it is recorded, and it may throw.\<close>

definition client_call :: "effect \<Rightarrow> jsval option \<Rightarrow> sentry_state stmt" where
  "client_call e thrown = js_seq (emit e) (\<lambda>s. (thrown, s))"

definition FRONTEND_DSN :: string where
  "FRONTEND_DSN = ''https://9a6338e4ec0a4e41bd24ad5b84eb437b@glitchtip.ddsrem.com/7''"

text \<open>
  The options handed to \<open>Sentry.init\<close>. The lists \<open>ignoreErrors\<close> and \<open>denyUrls\<close>
  and the callback \<open>beforeSend\<close> are constants of the source that no branch of
  \<open>initSentry\<close> depends on; they are left out of the record of the call.
\<close>

definition initOptions :: "jsval \<Rightarrow> jsval \<Rightarrow> jsval \<Rightarrow> jsval \<Rightarrow> jsval" where
  "initOptions app router environment replay =
     JObj ([(''dsn'', JStr FRONTEND_DSN), (''environment'', environment)]
           @ (if truthy app then [(''app'', app), (''router'', router)] else [])
           @ [(''integrations'', replay),
              (''tracesSampleRate'', JNum 0),
              (''replaysSessionSampleRate'', JNum 0),
              (''replaysOnErrorSampleRate'', JNum 1)])"

text \<open>
  \<open>initSentry(app = null, router = null, options = {})\<close>. A default applies when the
  argument is \<open>undefined\<close>. The read of \<open>options.enabled\<close> is outside the \<open>try\<close>
  block; everything after it is inside.
\<close>

definition default_arg :: "jsval \<Rightarrow> jsval \<Rightarrow> jsval" where
  "default_arg v d = (if v = JUndefined then d else v)"

definition initSentry :: "sentry_env \<Rightarrow> jsval \<Rightarrow> jsval \<Rightarrow> jsval \<Rightarrow> sentry_state stmt" where
  "initSentry env app0 router0 options0 =
     (let app = default_arg app0 JNull;
          router = default_arg router0 JNull;
          options = default_arg options0 (JObj [])
      in js_seq (emit InitSentryCalled)
        (js_eval (get_prop options ''enabled'') (\<lambda>en.
           if en = JBool False then js_assign (\<lambda>s. s)
           else
             js_try_catch
               (js_eval (node_env env) (\<lambda>ne.
                js_eval (replayIntegration env) (\<lambda>replay.
                js_seq (client_call
                          (SentryInit (initOptions app router
                                         (js_or ne (JStr ''production'')) replay))
                          (Sentry_init env))
                       (client_call SentrySetUser (Sentry_setUser env)))))
               (\<lambda>error. emit (ConsoleError ''[Sentry] Failed to initialize:'')))))"

text \<open>
  The inner \<open>try\<close> block of \<open>ensureSentryInitialized\<close> that looks for the
  application of the current component instance; its \<open>catch\<close> ignores the exception
  and leaves \<open>app\<close> at \<open>null\<close>.
\<close>

definition instance_app :: "sentry_env \<Rightarrow> jsval js" where
  "instance_app env =
     bind_js (getCurrentInstance env) (\<lambda>instance.
       if truthy instance then
         bind_js (get_prop instance ''appContext'') (\<lambda>ctx.
         bind_js (if truthy ctx then get_prop ctx ''app'' else Inr ctx) (\<lambda>ctx_app.
           if truthy ctx_app then Inr ctx_app
           else bind_js (get_prop instance ''app'') (\<lambda>a.
                  Inr (if truthy a then a else JNull))))
       else Inr JNull)"

text \<open>The search in the two global slots, when no application was found so far.\<close>

definition window_app :: "sentry_env \<Rightarrow> jsval \<Rightarrow> jsval js" where
  "window_app env app =
     (if \<not> truthy app \<and> window env \<noteq> JUndefined then
        bind_js (get_prop (window env) ''__VUE_APP__'') (\<lambda>a.
          if truthy a then Inr a
          else bind_js (get_prop (window env) ''__VUE_INSTANCE__'') (\<lambda>i.
                 Inr (if truthy i then i else app)))
      else Inr app)"

text \<open>The call of \<open>initSentry\<close> and the assignment of the flag that follows it.\<close>

definition init_and_mark :: "sentry_env \<Rightarrow> jsval \<Rightarrow> sentry_state stmt" where
  "init_and_mark env app =
     js_seq (initSentry env app JNull (JObj [(''enabled'', JBool True)]))
            (js_assign (\<lambda>s. s\<lparr>sentryInitialized := True\<rparr>))"

text \<open>The outer \<open>try\<close> block.\<close>

definition ensure_try :: "sentry_env \<Rightarrow> sentry_state stmt" where
  "ensure_try env =
     (let app1 = (case instance_app env of Inl e \<Rightarrow> JNull | Inr a \<Rightarrow> a)
      in js_eval (window_app env app1) (\<lambda>app2.
           if \<not> truthy app2 then
             (case createApp env of
                Inr a \<Rightarrow> js_seq (js_assign (\<lambda>s. s\<lparr>tempApp := a\<rparr>)) (init_and_mark env a)
              | Inl e \<Rightarrow>
                  js_seq (emit (ConsoleError ''[Sentry] Failed to create temporary Vue app:''))
                         (init_and_mark env app2))
           else init_and_mark env app2))"

definition ensureSentryInitialized :: "sentry_env \<Rightarrow> sentry_state stmt" where
  "ensureSentryInitialized env s =
     (if sentryInitialized s then (None, s)
      else js_try_catch (ensure_try env)
             (\<lambda>error. emit (ConsoleError ''[Sentry] Failed to initialize:'')) s)"

text \<open>
  The calls of a process, one after the other (the function is synchronous, so calls
  do not overlap), each with what the outside world does during it. A call that
  throws would stop the run.
\<close>

fun sentry_run :: "sentry_env list \<Rightarrow> sentry_state stmt" where
  "sentry_run [] s = (None, s)"
| "sentry_run (env # envs) s = js_seq (ensureSentryInitialized env) (sentry_run envs) s"

definition init_calls :: "sentry_state \<Rightarrow> nat" where
  "init_calls s = count_list (effects s) InitSentryCalled"

fun is_client_init :: "effect \<Rightarrow> bool" where
  "is_client_init (SentryInit opts) = True"
| "is_client_init e = False"

definition client_inits :: "sentry_state \<Rightarrow> nat" where
  "client_inits s = length (filter is_client_init (effects s))"



section \<open>Example inputs\<close>

text \<open>The success response of the status request named in the interface description.\<close>

definition status_ok :: jsval where
  "status_ok =
     JObj [(''code'', JNum 0),
           (''data'', JObj [(''enabled'', JBool True), (''has_client'', JBool False),
                            (''running'', JBool True)])]"

text \<open>A success response whose data lacks two of the three fields.\<close>

definition status_partial :: jsval where
  "status_partial = JObj [(''code'', JNum 0), (''data'', JObj [(''enabled'', JBool True)])]"

text \<open>A failure response with a message.\<close>

definition status_failed :: jsval where
  "status_failed = JObj [(''code'', JNum 1), (''msg'', JStr ''plugin not enabled'')]"

text \<open>
  A browser in which no application is found in the current instance or in the
  global slots, \<open>createApp\<close> works, and \<open>Sentry.init\<close> throws.
\<close>

definition env_client_throws :: sentry_env where
  "env_client_throws =
     \<lparr>getCurrentInstance = Inr JNull, window = JObj [], createApp = Inr (JObj []),
      node_env = Inr (JStr ''production''), replayIntegration = Inr (JObj []),
      Sentry_init = Some (JStr ''init failed''), Sentry_setUser = None\<rparr>"


section \<open>The invariant of the diagnostics\<close>

text \<open>
  As long as the flag is unset neither \<open>initSentry\<close> nor \<open>Sentry.init\<close> has been
  entered, and once it is set each has been entered at most once.
\<close>

definition once :: "sentry_state \<Rightarrow> bool" where
  "once s = (if sentryInitialized s then init_calls s \<le> 1 \<and> client_inits s \<le> 1
             else init_calls s = 0 \<and> client_inits s = 0)"


section \<open>Properties of the application shell\<close>

lemma data_type_is_total: "\<exists>b. data_type_is d t = Inr b"
  by (cases d) (auto simp: data_type_is_def bind_js_def)

lemma handleMessage_total: "\<exists>st'. handleMessage d st = Inr st'"
  by (cases d) (auto simp: handleMessage_def data_type_is_def bind_js_def)

lemma handleMessage_view:
  assumes "handleMessage d st = Inr st'"
  shows "currentComponent st' = currentComponent st \<or> currentComponent st' = Some Config"
  using assms
  by (cases d) (auto simp: handleMessage_def data_type_is_def bind_js_def split: if_splits)

lemma handleMessage_api:
  assumes "handleMessage d st = Inr st'"
  shows "api st' = (if is_api_envelope d then envelope_data d else api st)"
  using assms
  by (cases d)
     (auto simp: handleMessage_def data_type_is_def bind_js_def is_api_envelope_def
        envelope_data_def split: if_splits)

text \<open>
  What \<open>saveConfig\<close> does, case by case: it throws and leaves the state as it is
  when the transport is there and the configuration cannot be cloned; otherwise it
  ends with \<open>Page\<close> displayed, having posted the \<open>save\<close> envelope when the
  transport is there.
\<close>

lemma saveConfig_result:
  "saveConfig w config st =
     (if can_post w
      then (case config of
              Cloneable v \<Rightarrow>
                (None, st\<lparr>posted := posted st @
                                  [JObj [(''type'', JStr ''save''), (''data'', v)]],
                          currentComponent := Some Page\<rparr>)
            | Uncloneable \<Rightarrow> (Some data_clone_error, st))
      else (None, st\<lparr>currentComponent := Some Page\<rparr>))"
  by (cases config)
     (simp_all add: saveConfig_def post_save_def js_seq_def js_assign_def js_throw_def)

lemma app_step_Save:
  "app_step w (Save config) st =
     Inr (if can_post w
          then st\<lparr>posted := posted st @
                            [JObj [(''type'', JStr ''save''), (''data'', config)]],
                   currentComponent := Some Page\<rparr>
          else st\<lparr>currentComponent := Some Page\<rparr>)"
  by (simp add: saveConfig_result)

lemma app_step_total: "\<exists>st'. app_step w e st = Inr st'"
  by (cases e) (simp_all add: handleMessage_total app_step_Save del: app_step.simps(4))

lemma app_step_view:
  assumes "app_step w e st = Inr st'"
    and "currentComponent st = Some Page \<or> currentComponent st = Some Config"
  shows "currentComponent st' = Some Page \<or> currentComponent st' = Some Config"
proof (cases e)
  case (Message d)
  with assms(1) have "handleMessage d st = Inr st'" by simp
  from handleMessage_view [OF this] assms(2) show ?thesis by auto
next
  case Switch
  with assms(1) show ?thesis by (auto simp: switchComponent_def)
next
  case Close
  with assms show ?thesis by (auto simp: closeModal_def split: if_splits)
next
  case (Save config)
  with assms(1) show ?thesis
    by (auto simp: app_step_Save simp del: app_step.simps(4) split: if_splits)
qed

lemma app_step_api:
  assumes "app_step w e st = Inr st'"
  shows "api st' = latest_handle (api st) [e]"
proof (cases e)
  case (Message d)
  with assms have "handleMessage d st = Inr st'" by simp
  from handleMessage_api [OF this] Message show ?thesis by simp
next
  case Switch
  with assms show ?thesis by (auto simp: switchComponent_def)
next
  case Close
  with assms show ?thesis by (auto simp: closeModal_def split: if_splits)
next
  case (Save config)
  with assms show ?thesis
    by (auto simp: app_step_Save simp del: app_step.simps(4) split: if_splits)
qed

lemma latest_handle_step:
  "latest_handle h (e # es) = latest_handle (latest_handle h [e]) es"
  by (cases e) simp_all

lemma app_run_invariant:
  assumes "currentComponent st = Some Page \<or> currentComponent st = Some Config"
  shows "\<exists>st'. app_run w es st = Inr st'
           \<and> (currentComponent st' = Some Page \<or> currentComponent st' = Some Config)"
  using assms
proof (induction es arbitrary: st)
  case Nil
  then show ?case by simp
next
  case (Cons e es)
  obtain st1 where st1: "app_step w e st = Inr st1"
    using app_step_total by blast
  have "currentComponent st1 = Some Page \<or> currentComponent st1 = Some Config"
    using app_step_view [OF st1 Cons.prems] .
  from Cons.IH [OF this] obtain st' where
    "app_run w es st1 = Inr st'"
    "currentComponent st' = Some Page \<or> currentComponent st' = Some Config"
    by blast
  with st1 show ?case by (simp add: bind_js_def)
qed

text \<open>
  C5 at a configuration that cannot be cloned (a reactive proxy, or an object with
  a function in it), with the \<open>Config\<close> component displayed and the transport
  there: \<open>postMessage\<close> throws, the
  assignment after it is not reached, the exception leaves \<open>saveConfig\<close>, and the
  view is still \<open>Config\<close>. With a configuration that can be cloned the same call
  ends with \<open>Page\<close> displayed.
\<close>

theorem saveConfig_stays_on_Config:
  "saveConfig (Some True) Uncloneable (app_init\<lparr>currentComponent := Some Config\<rparr>)
     = (Some data_clone_error, app_init\<lparr>currentComponent := Some Config\<rparr>)
   \<and> saveConfig (Some True) (Cloneable (JObj [])) (app_init\<lparr>currentComponent := Some Config\<rparr>)
     = (None, app_init\<lparr>posted := [JObj [(''type'', JStr ''save''), (''data'', JObj [])]]\<rparr>)"
  by (simp add: saveConfig_def post_save_def js_seq_def js_assign_def js_throw_def
        app_init_def)

text \<open>
  C6. From the initial state, after every sequence of events (window messages with
  any payload, among them \<open>showConfig\<close>, and the child's \<open>switch\<close>, \<open>close\<close> and
  \<open>save\<close> events, the latter with a configuration that can be cloned), no handler
  has thrown and the displayed component is one of the
  two imported components, \<open>Page\<close> or \<open>Config\<close>.
\<close>

theorem view_always_defined:
  "\<exists>st. app_run w es app_init = Inr st
        \<and> (currentComponent st = Some Page \<or> currentComponent st = Some Config)"
proof -
  have "currentComponent app_init = Some Page \<or> currentComponent app_init = Some Config"
    by (simp add: app_init_def)
  from app_run_invariant [OF this, of w es] show ?thesis by blast
qed

text \<open>
  C8. A message whose \<open>event.data\<close> is falsy (absent, \<open>null\<close>, \<open>0\<close>, the empty
  string, \<open>false\<close>), or whose \<open>type\<close> is neither \<open>'api'\<close> nor \<open>'showConfig'\<close>
  (this includes a payload with no \<open>type\<close> at all and a \<open>type\<close> that is not a
  string), is handled without a throw and leaves the whole state of the shell as it
  was.
\<close>

theorem handleMessage_ignores_unknown:
  assumes "\<not> truthy d
           \<or> (get_prop d ''type'' \<noteq> Inr (JStr ''api'')
              \<and> get_prop d ''type'' \<noteq> Inr (JStr ''showConfig''))"
  shows "handleMessage d st = Inr st"
  using assms
  by (cases d) (auto simp: handleMessage_def data_type_is_def bind_js_def)

theorem handleMessage_ignores_unknown_witness:
  "handleMessage (JObj [(''type'', JStr ''ready'')]) app_init = Inr app_init
   \<and> handleMessage (JObj [(''payload'', JNum 1)]) app_init = Inr app_init
   \<and> handleMessage JUndefined app_init = Inr app_init"
proof -
  have a: "handleMessage (JObj [(''type'', JStr ''ready'')]) app_init = Inr app_init"
    by (rule handleMessage_ignores_unknown) simp
  have b: "handleMessage (JObj [(''payload'', JNum 1)]) app_init = Inr app_init"
    by (rule handleMessage_ignores_unknown) simp
  have c: "handleMessage JUndefined app_init = Inr app_init"
    by (rule handleMessage_ignores_unknown) simp
  from a b c show ?thesis by simp
qed

text \<open>
  C9, as the claim states it, fails: two \<open>api\<close> envelopes with different data are
  both written to the handle, the second over the first.
\<close>

theorem api_handle_reassigned:
  "app_run (Some True)
     [Message (JObj [(''type'', JStr ''api''), (''data'', JStr ''first'')])] app_init
   = Inr (app_init\<lparr>api := JStr ''first''\<rparr>)
   \<and> app_run (Some True)
     [Message (JObj [(''type'', JStr ''api''), (''data'', JStr ''first'')]),
      Message (JObj [(''type'', JStr ''api''), (''data'', JStr ''second'')])] app_init
   = Inr (app_init\<lparr>api := JStr ''second''\<rparr>)"
  by (simp add: handleMessage_def data_type_is_def bind_js_def app_init_def)

text \<open>
  C9, amended. Only \<open>handleMessage\<close> writes the handle, and it writes it on every
  \<open>api\<close> envelope: after any sequence of events, from any state, the handle is the
  data of the most recent \<open>api\<close> envelope, and the handle the run started with if
  there was none. The child's \<open>switch\<close>, \<open>close\<close> and \<open>save\<close> events never
  change it.
\<close>

theorem api_handle_is_latest_envelope:
  "(\<exists>st'. app_run w es st = Inr st' \<and> api st' = latest_handle (api st) es)
   \<and> api (switchComponent st) = api st
   \<and> api (closeModal w st) = api st
   \<and> api (snd (saveConfig w config st)) = api st"
proof -
  have "\<exists>st'. app_run w es st = Inr st' \<and> api st' = latest_handle (api st) es"
  proof (induction es arbitrary: st)
    case Nil
    then show ?case by simp
  next
    case (Cons e es)
    obtain st1 where st1: "app_step w e st = Inr st1"
      using app_step_total by blast
    from Cons.IH [of st1] obtain st' where
      run: "app_run w es st1 = Inr st'" and h: "api st' = latest_handle (api st1) es"
      by blast
    have "app_run w (e # es) st = Inr st'"
      using st1 run by (simp add: bind_js_def)
    moreover have "api st' = latest_handle (api st) (e # es)"
      using h app_step_api [OF st1] latest_handle_step [of "api st" e es] by simp
    ultimately show ?case by blast
  qed
  then show ?thesis
    by (simp add: switchComponent_def closeModal_def saveConfig_result
          split: config_value.splits)
qed


section \<open>Properties of the status widget\<close>

lemmas stmt_defs =
  js_assign_def js_throw_def js_seq_def js_eval_def js_try_catch_def js_try_finally_def
  bind_js_def

lemma get_prop_code_obj:
  assumes "get_prop result ''code'' = Inr (JNum 0)"
  shows "truthy result"
  using assms by (cases result) simp_all

lemma get_prop_truthy: "truthy v \<Longrightarrow> get_prop v k = Inr (prop_of v k)"
  by (cases v) (simp_all add: prop_of_def)

lemma fetch_try_success:
  assumes "get_prop result ''code'' = Inr (JNum 0)"
    and "get_prop result ''data'' = Inr d"
    and "truthy d"
  shows "fetch_try result now s =
     (None, s\<lparr>status := \<lparr>enabled = prop_of d ''enabled'',
                           has_client = prop_of d ''has_client'',
                           running = prop_of d ''running''\<rparr>,
               initialDataLoaded := True,
               lastRefreshedTimestamp := JNum now\<rparr>)"
  using assms get_prop_code_obj [OF assms(1)]
  by (simp add: fetch_try_def is_success_def data_field_def stmt_defs get_prop_truthy)

lemma is_success_total: "\<exists>b. is_success r = Inr b"
  by (cases r) (auto simp: is_success_def bind_js_def split: option.splits)

lemma get_prop_opt_total: "\<exists>v. get_prop_opt r k = Inr v"
  by (cases r) (simp_all add: get_prop_opt_def)

lemma js_or_truthy: "truthy b \<Longrightarrow> truthy (js_or a b)"
  by (simp add: js_or_def)

lemma msg_data_failed_truthy: "truthy (JStr msg_data_failed)"
  by (simp add: msg_data_failed_def)

lemma fetch_try_failure:
  assumes "is_success result = Inr False"
  shows "\<exists>m. fetch_try result now s = (Some (new_Error m), s)"
proof -
  obtain v where "get_prop_opt result ''msg'' = Inr v"
    using get_prop_opt_total by blast
  with assms have
    "fetch_try result now s = (Some (new_Error (js_or v (JStr msg_status_failed))), s)"
    by (simp add: fetch_try_def js_eval_def js_throw_def)
  then show ?thesis by blast
qed

lemma fetch_catch_non_nullish:
  assumes "e \<noteq> JUndefined" and "e \<noteq> JNull"
  shows "fetch_catch e s =
     (None, s\<lparr>error := js_or (prop_of e ''message'') (JStr msg_data_failed)\<rparr>)"
  using assms
  by (cases e) (simp_all add: fetch_catch_def js_eval_def js_assign_def prop_of_def)

lemma fetch_catch_Error:
  "\<exists>m. fetch_catch (new_Error x) s = (None, s\<lparr>error := m\<rparr>) \<and> truthy m"
proof -
  have "fetch_catch (new_Error x) s =
     (None, s\<lparr>error := js_or (prop_of (new_Error x) ''message'') (JStr msg_data_failed)\<rparr>)"
    by (rule fetch_catch_non_nullish) (simp_all add: new_Error_def)
  moreover have "truthy (js_or (prop_of (new_Error x) ''message'') (JStr msg_data_failed))"
    by (rule js_or_truthy) (rule msg_data_failed_truthy)
  ultimately show ?thesis by blast
qed

lemma fetchData_settle_failure:
  assumes "is_success result = Inr False"
  shows "\<exists>m. fetchData_settle (Resolved result) now s = (None, s\<lparr>error := m, loading := False\<rparr>)
             \<and> truthy m"
proof -
  obtain x where x: "fetch_try result now s = (Some (new_Error x), s)"
    using fetch_try_failure [OF assms] by blast
  obtain m where m: "fetch_catch (new_Error x) s = (None, s\<lparr>error := m\<rparr>)" "truthy m"
    using fetch_catch_Error by blast
  have "fetchData_settle (Resolved result) now s = (None, s\<lparr>error := m, loading := False\<rparr>)"
    by (simp add: fetchData_settle_def js_try_finally_def js_try_catch_def x m(1))
  with m(2) show ?thesis by blast
qed

lemma fetchData_settle_rejected:
  assumes "e \<noteq> JUndefined" and "e \<noteq> JNull"
  shows "fetchData_settle (Rejected e) now s =
     (None, s\<lparr>error := js_or (prop_of e ''message'') (JStr msg_data_failed),
               loading := False\<rparr>)"
  by (simp add: fetchData_settle_def js_try_finally_def js_try_catch_def js_throw_def
        fetch_catch_non_nullish [OF assms])

lemma fetchData_settle_nullish:
  assumes "e = JUndefined \<or> e = JNull"
  shows "\<exists>t. fetchData_settle (Rejected e) now s = (Some t, s\<lparr>loading := False\<rparr>)"
  using assms
  by (auto simp: fetchData_settle_def js_try_finally_def js_try_catch_def js_throw_def
        fetch_catch_def js_eval_def)

lemma is_success_True:
  assumes "is_success result = Inr True"
  shows "\<exists>d. get_prop result ''code'' = Inr (JNum 0) \<and> get_prop result ''data'' = Inr d \<and> truthy d"
  using assms
  by (cases result) (auto simp: is_success_def bind_js_def split: if_splits option.splits)

lemma fetchData_settle_loaded:
  "initialDataLoaded (snd (fetchData_settle oc now s)) =
     (initialDataLoaded s \<or> settles_ok (Settle oc now))"
proof (cases oc)
  case (Resolved result)
  obtain b where b: "is_success result = Inr b" using is_success_total by blast
  show ?thesis
  proof (cases b)
    case True
    with b have "is_success result = Inr True" by simp
    from is_success_True [OF this] obtain d where d: "get_prop result ''code'' = Inr (JNum 0)"
      "get_prop result ''data'' = Inr d" "truthy d"
      by blast
    show ?thesis
      using Resolved b True
      by (simp add: fetchData_settle_def fetch_try_success [OF d] js_try_finally_def
            js_try_catch_def)
  next
    case False
    with b fetchData_settle_failure [of result now s] Resolved show ?thesis by auto
  qed
next
  case (Rejected e)
  show ?thesis
  proof (cases "e = JUndefined \<or> e = JNull")
    case True
    from fetchData_settle_nullish [OF this, of now s] Rejected show ?thesis by auto
  next
    case False
    then have "e \<noteq> JUndefined" "e \<noteq> JNull" by simp_all
    from fetchData_settle_rejected [OF this, of now s] Rejected show ?thesis by simp
  qed
qed

lemma dash_step_loaded:
  "initialDataLoaded (dash_step e s) = (initialDataLoaded s \<or> settles_ok e)"
proof (cases e)
  case Start
  then show ?thesis by (simp add: fetchData_begin_def)
next
  case (Settle oc now)
  then show ?thesis by (simp add: fetchData_settle_loaded)
next
  case Unmount
  then show ?thesis by (simp add: onUnmounted_def split: option.splits)
qed

lemma dash_run_loaded:
  "initialDataLoaded (dash_run es s) = (initialDataLoaded s \<or> list_ex settles_ok es)"
  by (induction es arbitrary: s) (auto simp: dash_step_loaded)

lemma dash_run_append: "dash_run (es @ es') s = dash_run es' (dash_run es s)"
  by (induction es arbitrary: s) simp_all

lemma fetch_catch_timer:
  "fetch_catch e (s\<lparr>refreshTimer := t\<rparr>) =
     (case fetch_catch e s of (r, s') \<Rightarrow> (r, s'\<lparr>refreshTimer := t\<rparr>))"
  by (simp add: fetch_catch_def js_eval_def js_assign_def split: sum.splits)

lemma fetch_try_timer:
  "fetch_try result now (s\<lparr>refreshTimer := t\<rparr>) =
     (case fetch_try result now s of (r, s') \<Rightarrow> (r, s'\<lparr>refreshTimer := t\<rparr>))"
  by (simp add: fetch_try_def js_eval_def js_assign_def js_seq_def js_throw_def
        split: sum.splits)

lemma fetchData_settle_timer:
  "fetchData_settle oc now (s\<lparr>refreshTimer := t\<rparr>) =
     (case fetchData_settle oc now s of (r, s') \<Rightarrow> (r, s'\<lparr>refreshTimer := t\<rparr>))"
  by (cases oc)
     (simp_all add: fetchData_settle_def js_try_finally_def js_try_catch_def js_throw_def
        fetch_try_timer fetch_catch_timer split: prod.splits option.splits)

lemma fetchData_settle_keeps_timer:
  "refreshTimer (snd (fetchData_settle oc now s)) = refreshTimer s"
proof -
  obtain r s' where rs: "fetchData_settle oc now s = (r, s')"
    by (cases "fetchData_settle oc now s")
  from fetchData_settle_timer [where oc = oc and now = now and s = s and t = "refreshTimer s"] rs
  have "s' = s'\<lparr>refreshTimer := refreshTimer s\<rparr>" by simp
  then have "refreshTimer s' = refreshTimer (s'\<lparr>refreshTimer := refreshTimer s\<rparr>)"
    by (rule arg_cong)
  with rs show ?thesis by simp
qed

lemma fetchData_settle_unmounted:
  "fetchData_settle oc now (onUnmounted s) =
     (fst (fetchData_settle oc now s), onUnmounted (snd (fetchData_settle oc now s)))"
proof -
  obtain r s' where rs: "fetchData_settle oc now s = (r, s')"
    by (cases "fetchData_settle oc now s")
  have keep: "refreshTimer s' = refreshTimer s"
    using fetchData_settle_keeps_timer [of oc now s] rs by simp
  show ?thesis
  proof (cases "refreshTimer s = None \<or> refreshTimer s = Some 0")
    case True
    then have "onUnmounted s = s" "onUnmounted s' = s'"
      using keep by (auto simp: onUnmounted_def)
    with rs show ?thesis by simp
  next
    case False
    then have "onUnmounted s = s\<lparr>refreshTimer := None\<rparr>"
      "onUnmounted s' = s'\<lparr>refreshTimer := None\<rparr>"
      using keep by (auto simp: onUnmounted_def split: option.splits)
    with rs fetchData_settle_timer [where oc = oc and now = now and s = s and t = None] show ?thesis by simp
  qed
qed

lemma fetchData_settle_loading: "loading (snd (fetchData_settle oc now s)) = False"
  by (simp add: fetchData_settle_def js_try_finally_def split: prod.splits)

lemma fetchData_settle_resolved_no_throw: "fst (fetchData_settle (Resolved result) now s) = None"
proof -
  obtain b where b: "is_success result = Inr b" using is_success_total by blast
  show ?thesis
  proof (cases b)
    case True
    with b have "is_success result = Inr True" by simp
    from is_success_True [OF this] obtain d where d: "get_prop result ''code'' = Inr (JNum 0)"
      "get_prop result ''data'' = Inr d" "truthy d"
      by blast
    show ?thesis
      by (simp add: fetchData_settle_def fetch_try_success [OF d] js_try_finally_def
            js_try_catch_def)
  next
    case False
    with b fetchData_settle_failure [of result now s] show ?thesis by auto
  qed
qed

lemmas eval_defs =
  fetchData_def fetchData_settle_def fetchData_begin_def fetch_try_def fetch_catch_def
  is_success_def data_field_def get_prop_opt_def js_or_def new_Error_def type_error_def
  js_assign_def js_throw_def js_seq_def js_eval_def js_try_catch_def js_try_finally_def
  bind_js_def dashboard_init_def onMounted_def onUnmounted_def status_path_def
  getPluginId_def


text \<open>
  A refresh that fails in one of the ways the widget expects (the awaited value is
  not a success, or the request is rejected with a reason other than \<open>null\<close> and
  \<open>undefined\<close>) ends without a throw, with a truthy \<open>error\<close>, \<open>loading\<close> reset, and
  everything else, the three status fields among it, as before the refresh.
\<close>

lemma fetchData_failure_keeps_status:
  assumes "oc = Resolved result \<and> is_success result = Inr False
           \<or> oc = Rejected e \<and> e \<noteq> JUndefined \<and> e \<noteq> JNull"
  shows "\<exists>m. fetchData_settle oc now (fetchData_begin s)
               = (None, s\<lparr>error := m, loading := False\<rparr>) \<and> truthy m"
proof -
  let ?b = "fetchData_begin s"
  have absorb: "\<And>m. ?b\<lparr>error := m, loading := False\<rparr> = s\<lparr>error := m, loading := False\<rparr>"
    by (simp add: fetchData_begin_def)
  from assms show ?thesis
  proof
    assume a: "oc = Resolved result \<and> is_success result = Inr False"
    then obtain m where
      "fetchData_settle (Resolved result) now ?b = (None, ?b\<lparr>error := m, loading := False\<rparr>)"
      "truthy m"
      using fetchData_settle_failure [of result now ?b] by blast
    with a absorb show ?thesis by auto
  next
    assume a: "oc = Rejected e \<and> e \<noteq> JUndefined \<and> e \<noteq> JNull"
    then have "fetchData_settle (Rejected e) now ?b =
        (None, ?b\<lparr>error := js_or (prop_of e ''message'') (JStr msg_data_failed),
                   loading := False\<rparr>)"
      using fetchData_settle_rejected [of e now ?b] by simp
    moreover have "truthy (js_or (prop_of e ''message'') (JStr msg_data_failed))"
      by (rule js_or_truthy) (rule msg_data_failed_truthy)
    ultimately show ?thesis using a absorb by auto
  qed
qed

text \<open>
  C2, as the claim states it, fails: the component is mounted with a refresh
  interval of 5 seconds, its first request is pending, and it is unmounted. When the
  response then arrives, \<open>fetchData\<close> resumes and writes \<open>loading\<close>, the three status
  fields, \<open>initialDataLoaded\<close> and \<open>lastRefreshedTimestamp\<close>.
\<close>

theorem late_response_mutates_state:
  "onUnmounted (onMounted 5 7 dashboard_init) = dashboard_init\<lparr>loading := True\<rparr>
   \<and> fetchData_settle (Resolved status_ok) 1000 (onUnmounted (onMounted 5 7 dashboard_init))
     = (None, dashboard_init\<lparr>
          initialDataLoaded := True, lastRefreshedTimestamp := JNum 1000,
          status := \<lparr>enabled = JBool True, has_client = JBool False, running = JBool True\<rparr>\<rparr>)
   \<and> snd (fetchData_settle (Resolved status_ok) 1000
            (onUnmounted (onMounted 5 7 dashboard_init)))
     \<noteq> onUnmounted (onMounted 5 7 dashboard_init)"
  by (simp add: eval_defs status_ok_def Let_def)


text \<open>
  C2, amended. Unmounting only clears the refresh timer; nothing guards the part of
  \<open>fetchData\<close> after the \<open>await\<close>. A settlement that arrives after the unmount is
  handled exactly as on a mounted component (the two orders of unmounting and
  settling give the same state): \<open>loading\<close> is reset and the timer stays cleared;
  a success writes the three status fields, \<open>initialDataLoaded\<close> and
  \<open>lastRefreshedTimestamp\<close>; a rejection with a reason other than \<open>null\<close> and
  \<open>undefined\<close> writes \<open>error\<close>; and no error is thrown when the request resolves
  with any value or is rejected with such a reason.
\<close>

theorem late_response_handled_as_mounted:
  "fetchData_settle oc now (onUnmounted s) =
     (fst (fetchData_settle oc now s), onUnmounted (snd (fetchData_settle oc now s)))
   \<and> loading (snd (fetchData_settle oc now (onUnmounted s))) = False
   \<and> refreshTimer (snd (fetchData_settle oc now (onUnmounted s))) = refreshTimer (onUnmounted s)
   \<and> fst (fetchData_settle (Resolved result) now (onUnmounted s)) = None
   \<and> (is_success result = Inr True
        \<longrightarrow> snd (fetchData_settle (Resolved result) now (onUnmounted s)) =
            (onUnmounted s)\<lparr>
              loading := False,
              status := \<lparr>enabled = prop_of (prop_of result ''data'') ''enabled'',
                          has_client = prop_of (prop_of result ''data'') ''has_client'',
                          running = prop_of (prop_of result ''data'') ''running''\<rparr>,
              initialDataLoaded := True, lastRefreshedTimestamp := JNum now\<rparr>)
   \<and> (e \<noteq> JUndefined \<and> e \<noteq> JNull
        \<longrightarrow> fetchData_settle (Rejected e) now (onUnmounted s) =
            (None, (onUnmounted s)\<lparr>
               error := js_or (prop_of e ''message'') (JStr msg_data_failed),
               loading := False\<rparr>))"
proof -
  have rej: "e \<noteq> JUndefined \<and> e \<noteq> JNull
        \<longrightarrow> fetchData_settle (Rejected e) now (onUnmounted s) =
            (None, (onUnmounted s)\<lparr>
               error := js_or (prop_of e ''message'') (JStr msg_data_failed),
               loading := False\<rparr>)"
    using fetchData_settle_rejected [of e now "onUnmounted s"] by simp
  have ok: "is_success result = Inr True
        \<longrightarrow> snd (fetchData_settle (Resolved result) now (onUnmounted s)) =
            (onUnmounted s)\<lparr>
              loading := False,
              status := \<lparr>enabled = prop_of (prop_of result ''data'') ''enabled'',
                          has_client = prop_of (prop_of result ''data'') ''has_client'',
                          running = prop_of (prop_of result ''data'') ''running''\<rparr>,
              initialDataLoaded := True, lastRefreshedTimestamp := JNum now\<rparr>"
  proof
    assume "is_success result = Inr True"
    from is_success_True [OF this] obtain d where
      d: "get_prop result ''code'' = Inr (JNum 0)" "get_prop result ''data'' = Inr d" "truthy d"
      by blast
    from d(2) have "prop_of result ''data'' = d" by (simp add: prop_of_def)
    then show "snd (fetchData_settle (Resolved result) now (onUnmounted s)) =
            (onUnmounted s)\<lparr>
              loading := False,
              status := \<lparr>enabled = prop_of (prop_of result ''data'') ''enabled'',
                          has_client = prop_of (prop_of result ''data'') ''has_client'',
                          running = prop_of (prop_of result ''data'') ''running''\<rparr>,
              initialDataLoaded := True, lastRefreshedTimestamp := JNum now\<rparr>"
      by (simp add: fetchData_settle_def fetch_try_success [OF d] js_try_finally_def
            js_try_catch_def)
  qed
  from rej ok show ?thesis
    using fetchData_settle_unmounted [of oc now s]
      fetchData_settle_loading [of oc now "onUnmounted s"]
      fetchData_settle_keeps_timer [of oc now "onUnmounted s"]
      fetchData_settle_resolved_no_throw [of result now "onUnmounted s"]
    by simp
qed

theorem late_response_handled_as_mounted_witness:
  "is_success status_ok = Inr True
   \<and> JStr ''timeout'' \<noteq> JUndefined \<and> JStr ''timeout'' \<noteq> JNull
   \<and> snd (fetchData_settle (Resolved status_ok) 1000
            (onUnmounted (onMounted 5 7 dashboard_init)))
     = dashboard_init\<lparr>
         status := \<lparr>enabled = JBool True, has_client = JBool False, running = JBool True\<rparr>,
         initialDataLoaded := True, lastRefreshedTimestamp := JNum 1000\<rparr>
   \<and> fetchData_settle (Rejected (JStr ''timeout'')) 1000
       (onUnmounted (onMounted 5 7 dashboard_init))
     = (None, dashboard_init\<lparr>error := JStr msg_data_failed\<rparr>)"
proof -
  have ok: "is_success status_ok = Inr True"
    by (simp add: is_success_def status_ok_def bind_js_def)
  note inst = late_response_handled_as_mounted
    [of "Resolved status_ok" 1000 "onMounted 5 7 dashboard_init" status_ok "JStr ''timeout''"]
  from inst ok have
    "snd (fetchData_settle (Resolved status_ok) 1000
            (onUnmounted (onMounted 5 7 dashboard_init))) =
       (onUnmounted (onMounted 5 7 dashboard_init))\<lparr>
          loading := False,
          status := \<lparr>enabled = prop_of (prop_of status_ok ''data'') ''enabled'',
                      has_client = prop_of (prop_of status_ok ''data'') ''has_client'',
                      running = prop_of (prop_of status_ok ''data'') ''running''\<rparr>,
          initialDataLoaded := True, lastRefreshedTimestamp := JNum 1000\<rparr>"
    by blast
  then have a: "snd (fetchData_settle (Resolved status_ok) 1000
            (onUnmounted (onMounted 5 7 dashboard_init)))
     = dashboard_init\<lparr>
         status := \<lparr>enabled = JBool True, has_client = JBool False, running = JBool True\<rparr>,
         initialDataLoaded := True, lastRefreshedTimestamp := JNum 1000\<rparr>"
    by (simp add: eval_defs status_ok_def prop_of_def Let_def)
  have ne: "JStr ''timeout'' \<noteq> JUndefined \<and> JStr ''timeout'' \<noteq> JNull" by simp
  from inst ne have
    "fetchData_settle (Rejected (JStr ''timeout'')) 1000
       (onUnmounted (onMounted 5 7 dashboard_init)) =
       (None, (onUnmounted (onMounted 5 7 dashboard_init))\<lparr>
          error := js_or (prop_of (JStr ''timeout'') ''message'') (JStr msg_data_failed),
          loading := False\<rparr>)"
    by blast
  then have b: "fetchData_settle (Rejected (JStr ''timeout'')) 1000
       (onUnmounted (onMounted 5 7 dashboard_init))
     = (None, dashboard_init\<lparr>error := JStr msg_data_failed\<rparr>)"
    by (simp add: eval_defs prop_of_def Let_def)
  from ok ne a b show ?thesis by blast
qed

text \<open>
  C3 at a rejection without a reason (\<open>Promise.reject()\<close>): the \<open>catch\<close> block reads
  \<open>err.message\<close> of \<open>undefined\<close>, which throws; \<open>error\<close> keeps the \<open>null\<close> it was
  given when the refresh began, and the promise of \<open>fetchData\<close> is rejected with
  the \<open>TypeError\<close>.
\<close>

theorem fetchData_rejected_with_undefined:
  "fetchData (ApiClient (\<lambda>path. Rejected JUndefined)) 1000 dashboard_init =
     (Some (type_error ''Cannot read properties of undefined (reading message)''),
      dashboard_init)
   \<and> error dashboard_init = JNull"
  by (simp add: eval_defs)


text \<open>
  C4. When the awaited value has \<open>code\<close> equal to \<open>0\<close> and a truthy \<open>data\<close>, the
  refresh ends without a throw in the state it began in, changed only as follows:
  the three status fields are the properties \<open>enabled\<close>, \<open>has_client\<close> and
  \<open>running\<close> of \<open>data\<close>, \<open>initialDataLoaded\<close> is true,
  \<open>lastRefreshedTimestamp\<close> is the current time, \<open>error\<close> is \<open>null\<close> and \<open>loading\<close>
  is false.
\<close>

theorem fetchData_success:
  assumes "get_prop result ''code'' = Inr (JNum 0)"
    and "get_prop result ''data'' = Inr d"
    and "truthy d"
  shows "fetchData_settle (Resolved result) now (fetchData_begin s) =
     (None, s\<lparr>loading := False, error := JNull,
               status := \<lparr>enabled = prop_of d ''enabled'',
                           has_client = prop_of d ''has_client'',
                           running = prop_of d ''running''\<rparr>,
               initialDataLoaded := True,
               lastRefreshedTimestamp := JNum now\<rparr>)"
  by (simp add: fetchData_settle_def fetch_try_success [OF assms] js_try_finally_def
        js_try_catch_def fetchData_begin_def)


theorem fetchData_success_witness:
  "fetchData (ApiClient (\<lambda>path. Resolved status_ok)) 1000 dashboard_init =
     (None, dashboard_init\<lparr>
        status := \<lparr>enabled = JBool True, has_client = JBool False, running = JBool True\<rparr>,
        initialDataLoaded := True, lastRefreshedTimestamp := JNum 1000\<rparr>)"
proof -
  have code: "get_prop status_ok ''code'' = Inr (JNum 0)"
    by (simp add: status_ok_def)
  have data: "get_prop status_ok ''data'' =
      Inr (JObj [(''enabled'', JBool True), (''has_client'', JBool False),
                 (''running'', JBool True)])"
    by (simp add: status_ok_def)
  have "truthy (JObj [(''enabled'', JBool True), (''has_client'', JBool False),
                      (''running'', JBool True)])"
    by simp
  from fetchData_success [OF code data this, of 1000 dashboard_init] show ?thesis
    by (simp add: fetchData_def prop_of_def dashboard_init_def)
qed

text \<open>
  C7. \<open>initialDataLoaded\<close> is true after a step exactly when it was true before or
  the step is a settlement that \<open>fetchData\<close> takes as a success; so after a run it
  is true exactly when it was true at the start or the run contains such a
  settlement, and once it is true it is true after every continuation of the run,
  whatever fails in it.
\<close>

theorem initialDataLoaded_set_once:
  "initialDataLoaded (dash_step e s) = (initialDataLoaded s \<or> settles_ok e)
   \<and> initialDataLoaded (dash_run es s) = (initialDataLoaded s \<or> list_ex settles_ok es)
   \<and> (initialDataLoaded (dash_run es s) \<longrightarrow> initialDataLoaded (dash_run (es @ es') s))"
  by (simp add: dash_step_loaded dash_run_loaded dash_run_append)


theorem initialDataLoaded_set_once_witness:
  "\<not> initialDataLoaded (dash_run [Start, Settle (Resolved status_failed) 1] dashboard_init)
   \<and> initialDataLoaded
       (dash_run [Start, Settle (Resolved status_failed) 1, Start,
                  Settle (Resolved status_ok) 2] dashboard_init)
   \<and> initialDataLoaded
       (dash_run ([Start, Settle (Resolved status_failed) 1, Start,
                   Settle (Resolved status_ok) 2]
                  @ [Start, Settle (Rejected JUndefined) 3, Start,
                     Settle (Resolved status_failed) 4, Unmount]) dashboard_init)"
proof -
  let ?es = "[Start, Settle (Resolved status_failed) 1, Start, Settle (Resolved status_ok) 2]"
  let ?es' = "[Start, Settle (Rejected JUndefined) 3, Start,
               Settle (Resolved status_failed) 4, Unmount]"
  have a: "\<not> initialDataLoaded (dash_run [Start, Settle (Resolved status_failed) 1]
             dashboard_init)"
    by (simp add: eval_defs status_failed_def)
  have b: "initialDataLoaded (dash_run ?es dashboard_init)"
    by (simp add: eval_defs status_failed_def status_ok_def)
  from initialDataLoaded_set_once [of Start dashboard_init ?es ?es'] b
  have "initialDataLoaded (dash_run (?es @ ?es') dashboard_init)" by blast
  with a b show ?thesis by blast
qed

text \<open>
  C10. When the awaited value has \<open>code\<close> equal to \<open>0\<close> and its \<open>data\<close> is an object,
  each of the three status fields becomes the property of that name of \<open>data\<close> as
  it is, and \<open>undefined\<close> when \<open>data\<close> has no such property; nothing checks that
  the value is a boolean. The refresh counts as a success all the same:
  \<open>initialDataLoaded\<close> is set, \<open>lastRefreshedTimestamp\<close> is stamped, \<open>error\<close> stays
  \<open>null\<close>, and nothing is thrown.
\<close>

theorem fetchData_copies_fields_unchecked:
  assumes "get_prop result ''code'' = Inr (JNum 0)"
    and "get_prop result ''data'' = Inr (JObj kvs)"
  shows "\<exists>s'. fetchData_settle (Resolved result) now (fetchData_begin s) = (None, s')
     \<and> enabled (status s') = (case map_of kvs ''enabled'' of None \<Rightarrow> JUndefined | Some v \<Rightarrow> v)
     \<and> has_client (status s') =
         (case map_of kvs ''has_client'' of None \<Rightarrow> JUndefined | Some v \<Rightarrow> v)
     \<and> running (status s') = (case map_of kvs ''running'' of None \<Rightarrow> JUndefined | Some v \<Rightarrow> v)
     \<and> initialDataLoaded s'
     \<and> lastRefreshedTimestamp s' = JNum now
     \<and> error s' = JNull
     \<and> loading s' = False"
proof -
  have t: "truthy (JObj kvs)" by simp
  have "fetch_try result now (fetchData_begin s) =
     (None, (fetchData_begin s)\<lparr>status := \<lparr>enabled = prop_of (JObj kvs) ''enabled'',
                           has_client = prop_of (JObj kvs) ''has_client'',
                           running = prop_of (JObj kvs) ''running''\<rparr>,
               initialDataLoaded := True,
               lastRefreshedTimestamp := JNum now\<rparr>)"
    by (rule fetch_try_success [OF assms t])
  then show ?thesis
    by (simp add: fetchData_settle_def js_try_finally_def js_try_catch_def
          fetchData_begin_def prop_of_def)
qed

theorem fetchData_copies_fields_unchecked_witness:
  "\<exists>s'. fetchData_settle (Resolved status_partial) 1000 (fetchData_begin dashboard_init)
          = (None, s')
     \<and> enabled (status s') = JBool True
     \<and> has_client (status s') = JUndefined
     \<and> running (status s') = JUndefined
     \<and> initialDataLoaded s'
     \<and> lastRefreshedTimestamp s' = JNum 1000
     \<and> error s' = JNull"
proof -
  have code: "get_prop status_partial ''code'' = Inr (JNum 0)"
    by (simp add: status_partial_def)
  have data: "get_prop status_partial ''data'' = Inr (JObj [(''enabled'', JBool True)])"
    by (simp add: status_partial_def)
  from fetchData_copies_fields_unchecked [OF code data, of 1000 dashboard_init]
  have "\<exists>s'. fetchData_settle (Resolved status_partial) 1000 (fetchData_begin dashboard_init)
          = (None, s')
     \<and> enabled (status s') = JBool True
     \<and> has_client (status s') = JUndefined
     \<and> running (status s') = JUndefined
     \<and> initialDataLoaded s'
     \<and> lastRefreshedTimestamp s' = JNum 1000
     \<and> error s' = JNull
     \<and> loading s' = False"
    by simp
  then show ?thesis by blast
qed


section \<open>Properties of the diagnostics\<close>

lemma emit_calls: "emit e s = (None, s\<lparr>effects := effects s @ [e]\<rparr>)"
  by (simp add: emit_def js_assign_def)

lemma initSentry_enabled:
  "\<exists>s'. initSentry env app JNull (JObj [(''enabled'', JBool True)]) s = (None, s')
        \<and> init_calls s' = init_calls s + 1
        \<and> client_inits s' \<le> client_inits s + 1
        \<and> sentryInitialized s' = sentryInitialized s"
  by (auto simp: initSentry_def default_arg_def Let_def js_seq_def js_eval_def js_try_catch_def
       client_call_def emit_calls init_calls_def client_inits_def
       split: sum.splits option.splits)


lemma init_and_mark_result:
  "\<exists>s'. init_and_mark env app s = (None, s')
        \<and> sentryInitialized s'
        \<and> init_calls s' = init_calls s + 1
        \<and> client_inits s' \<le> client_inits s + 1"
proof -
  obtain s1 where s1: "initSentry env app JNull (JObj [(''enabled'', JBool True)]) s = (None, s1)"
    "init_calls s1 = init_calls s + 1" "client_inits s1 \<le> client_inits s + 1"
    using initSentry_enabled [of env app s] by blast
  have "init_and_mark env app s = (None, s1\<lparr>sentryInitialized := True\<rparr>)"
    by (simp add: init_and_mark_def js_seq_def js_assign_def s1(1))
  with s1 show ?thesis by (simp add: init_calls_def client_inits_def)
qed

lemma init_and_mark_after:
  assumes "init_calls s0 = init_calls s" and "client_inits s0 = client_inits s"
  shows "\<exists>s'. init_and_mark env app s0 = (None, s')
        \<and> sentryInitialized s'
        \<and> init_calls s' = init_calls s + 1
        \<and> client_inits s' \<le> client_inits s + 1"
  using init_and_mark_result [of env app s0] assms by simp

lemma ensure_try_result:
  "\<exists>r s'. ensure_try env s = (r, s')
     \<and> (r = None \<and> sentryInitialized s' \<and> init_calls s' = init_calls s + 1
          \<and> client_inits s' \<le> client_inits s + 1
         \<or> r \<noteq> None \<and> s' = s)"
proof (cases "window_app env (case instance_app env of Inl e \<Rightarrow> JNull | Inr a \<Rightarrow> a)")
  case (Inl e)
  then show ?thesis by (simp add: ensure_try_def js_eval_def)
next
  case (Inr app2)
  show ?thesis
  proof (cases "truthy app2")
    case True
    with Inr have "ensure_try env s = init_and_mark env app2 s"
      by (simp add: ensure_try_def js_eval_def)
    with init_and_mark_result [of env app2 s] show ?thesis by auto
  next
    case False
    show ?thesis
    proof (cases "createApp env")
      case (Inl e)
      let ?s0 = "s\<lparr>effects := effects s @
                   [ConsoleError ''[Sentry] Failed to create temporary Vue app:'']\<rparr>"
      have "ensure_try env s = init_and_mark env app2 ?s0"
        using Inr False Inl by (simp add: ensure_try_def js_eval_def js_seq_def emit_calls)
      moreover have "init_calls ?s0 = init_calls s" "client_inits ?s0 = client_inits s"
        by (simp_all add: init_calls_def client_inits_def)
      ultimately show ?thesis
        using init_and_mark_after [of ?s0 s env app2] by auto
    next
      case (Inr a)
      let ?s0 = "s\<lparr>tempApp := a\<rparr>"
      have "ensure_try env s = init_and_mark env a ?s0"
        using \<open>window_app env _ = Inr app2\<close> False Inr
        by (simp add: ensure_try_def js_eval_def js_seq_def js_assign_def)
      moreover have "init_calls ?s0 = init_calls s" "client_inits ?s0 = client_inits s"
        by (simp_all add: init_calls_def client_inits_def)
      ultimately show ?thesis
        using init_and_mark_after [of ?s0 s env a] by auto
    qed
  qed
qed

lemma ensureSentryInitialized_result:
  "\<exists>s'. ensureSentryInitialized env s = (None, s')
     \<and> (if sentryInitialized s then s' = s
         else sentryInitialized s' \<and> init_calls s' = init_calls s + 1
                \<and> client_inits s' \<le> client_inits s + 1
              \<or> \<not> sentryInitialized s' \<and> init_calls s' = init_calls s
                \<and> client_inits s' = client_inits s)"
proof (cases "sentryInitialized s")
  case True
  then show ?thesis by (simp add: ensureSentryInitialized_def)
next
  case False
  obtain r s1 where r: "ensure_try env s = (r, s1)"
    and alt: "r = None \<and> sentryInitialized s1 \<and> init_calls s1 = init_calls s + 1
               \<and> client_inits s1 \<le> client_inits s + 1
              \<or> r \<noteq> None \<and> s1 = s"
    using ensure_try_result [of env s] by blast
  show ?thesis
  proof (cases r)
    case None
    with r alt False show ?thesis
      by (simp add: ensureSentryInitialized_def js_try_catch_def)
  next
    case (Some e)
    with r alt False show ?thesis
      by (simp add: ensureSentryInitialized_def js_try_catch_def emit_calls init_calls_def
            client_inits_def)
  qed
qed

lemma ensureSentryInitialized_once:
  assumes "once s"
  shows "\<exists>s'. ensureSentryInitialized env s = (None, s') \<and> once s'"
proof -
  from ensureSentryInitialized_result [of env s] obtain s' where
    s': "ensureSentryInitialized env s = (None, s')"
    and alt: "if sentryInitialized s then s' = s
         else sentryInitialized s' \<and> init_calls s' = init_calls s + 1
                \<and> client_inits s' \<le> client_inits s + 1
              \<or> \<not> sentryInitialized s' \<and> init_calls s' = init_calls s
                \<and> client_inits s' = client_inits s"
    by blast
  from alt assms have "once s'"
    by (auto simp: once_def split: if_splits)
  with s' show ?thesis by blast
qed

lemma sentry_run_once:
  assumes "once s"
  shows "\<exists>s'. sentry_run envs s = (None, s') \<and> once s'"
  using assms
proof (induction envs arbitrary: s)
  case Nil
  then show ?case by simp
next
  case (Cons env envs)
  from ensureSentryInitialized_once [OF Cons.prems, of env] obtain s1 where
    s1: "ensureSentryInitialized env s = (None, s1)" "once s1" by blast
  from Cons.IH [OF s1(2)] obtain s' where "sentry_run envs s1 = (None, s')" "once s'"
    by blast
  with s1 show ?case by (simp add: js_seq_def)
qed

text \<open>
  C1. In every sequence of calls of \<open>ensureSentryInitialized\<close> from the start of
  the process, whatever the outside world does during each call (no instance, no
  \<open>window\<close>, \<open>createApp\<close> throwing, \<open>Sentry.init\<close> or \<open>Sentry.setUser\<close> throwing),
  no call throws, \<open>initSentry\<close> is entered at most once and \<open>Sentry.init\<close> is called
  at most once. A call in which \<open>initSentry\<close> is entered leaves the flag set,
  also when the client has thrown: \<open>initSentry\<close> catches what the client throws and
  returns, so the attempt is not repeated.
\<close>

theorem initSentry_at_most_once:
  "(\<exists>s. sentry_run envs sentry_start = (None, s) \<and> init_calls s \<le> 1 \<and> client_inits s \<le> 1)
   \<and> fst (ensureSentryInitialized env s0) = None
   \<and> (sentryInitialized (snd (ensureSentryInitialized env s0))
       \<or> init_calls (snd (ensureSentryInitialized env s0)) = init_calls s0)"
proof -
  have "once sentry_start"
    by (simp add: once_def sentry_start_def init_calls_def client_inits_def)
  from sentry_run_once [OF this, of envs] obtain s where
    "sentry_run envs sentry_start = (None, s)" "once s" by blast
  then have a: "\<exists>s. sentry_run envs sentry_start = (None, s) \<and> init_calls s \<le> 1
      \<and> client_inits s \<le> 1"
    by (auto simp: once_def split: if_splits)
  from ensureSentryInitialized_result [of env s0] have
    "fst (ensureSentryInitialized env s0) = None
     \<and> (sentryInitialized (snd (ensureSentryInitialized env s0))
       \<or> init_calls (snd (ensureSentryInitialized env s0)) = init_calls s0)"
    by (auto split: if_splits)
  with a show ?thesis by blast
qed

lemmas sentry_defs =
  ensureSentryInitialized_def ensure_try_def init_and_mark_def initSentry_def
  instance_app_def window_app_def default_arg_def initOptions_def client_call_def emit_def
  js_assign_def js_throw_def js_seq_def js_eval_def js_try_catch_def bind_js_def js_or_def
  sentry_start_def init_calls_def client_inits_def FRONTEND_DSN_def

theorem initSentry_at_most_once_witness:
  "init_calls (snd (sentry_run [env_client_throws, env_client_throws] sentry_start)) = 1
   \<and> client_inits (snd (sentry_run [env_client_throws, env_client_throws] sentry_start)) = 1
   \<and> sentryInitialized (snd (sentry_run [env_client_throws] sentry_start))"
  using initSentry_at_most_once [of "[env_client_throws, env_client_throws]" env_client_throws sentry_start]
  by (simp add: sentry_defs env_client_throws_def Let_def)


end
